theory Spec2Isabelle
  imports Main
begin

section \<open>The data model (types.ts and the state hooks of App)\<close>

text \<open>
  \<^verbatim>\<open>GameStateFromAI\<close> of types.ts: one scene as the story service returns it.
  \<^verbatim>\<open>gameOverMessage: string | null\<close> is an option.
\<close>

record GameStateFromAI =
  sceneDescription :: string
  imagePrompt :: string
  choices :: "string list"
  gameOver :: bool
  gameOverMessage :: "string option"

text \<open>
  The eight \<^verbatim>\<open>useState\<close> cells of the component \<^verbatim>\<open>App\<close> (lines 13 to 20), in the order
  of the source. A \<^verbatim>\<open>T | null\<close> cell is an option.
\<close>

record session =
  gameState :: "GameStateFromAI option"
  currentImageUrl :: "string option"
  storyLog :: "string list"
  isLoading :: bool
  isImageLoading :: bool
  error :: "string option"
  gameStarted :: bool
  apiKeyMissing :: bool

text \<open>The initial values given to the eight \<^verbatim>\<open>useState\<close> calls.\<close>

definition initial_session :: session where
  "initial_session =
     \<lparr>gameState = None, currentImageUrl = None, storyLog = [], isLoading = False,
      isImageLoading = False, error = None, gameStarted = False, apiKeyMissing = False\<rparr>"

text \<open>
  The mount effect (lines 22 to 27), run once after the first render: when
  \<^verbatim>\<open>process.env.API_KEY\<close> is falsy (undefined or the empty string) it sets \<^verbatim>\<open>apiKeyMissing\<close> and
  the error text. The environment variable is the parameter.
\<close>

definition mountEffect :: "string option \<Rightarrow> session \<Rightarrow> session" where
  "mountEffect apiKey s =
     (if apiKey = None \<or> apiKey = Some [] then
        s\<lparr>apiKeyMissing := True,
          error := Some ''API Key is missing. Please ensure the API_KEY environment variable is set.''\<rparr>
      else s)"

section \<open>The story service (services/geminiService, imported at line 3)\<close>

text \<open>
  The three operations are imported, not defined, by the component; they are parameters of the
  model. A promise either rejects with the thrown value or resolves. The handlers only ask of a
  thrown value whether it is an \<^verbatim>\<open>Error\<close> object and, if so, for its message.
\<close>

datatype thrown = ErrorObject string | NonErrorValue

datatype 'a promise = Rejects thrown | Resolves 'a

record services =
  getInitialScene :: "string \<Rightarrow> GameStateFromAI option promise"
  getNextScene :: "string \<Rightarrow> string \<Rightarrow> string list \<Rightarrow> GameStateFromAI option promise"
  generateImage :: "string \<Rightarrow> string option promise"

text \<open>
  A request as it leaves the component, with its arguments. A handler's trace lists, for every
  \<^verbatim>\<open>await\<close> it reaches, the session as it stands when the handler suspends (the state the
  component renders while the request is pending) and the request awaited.
\<close>

datatype request =
    GetInitialScene string
  | GetNextScene string string "string list"
  | GenerateImage string

type_synonym trace = "(session \<times> request) list"

section \<open>The handlers\<close>

text \<open>
  The block that occurs three times in the source (lines 42 to 45, 76 to 79 and 84 to 87):
  \<^verbatim>\<open>setIsImageLoading(true); const imageUrl = await generateImage(prompt);
  setCurrentImageUrl(imageUrl); setIsImageLoading(false);\<close>
  It returns the trace, the session, and the value thrown if the awaited promise rejected; the
  two statements after the \<^verbatim>\<open>await\<close> do not run then.
\<close>

definition fetchImage :: "services \<Rightarrow> string \<Rightarrow> session \<Rightarrow> trace \<times> session \<times> thrown option" where
  "fetchImage env prompt s =
     (let s1 = s\<lparr>isImageLoading := True\<rparr> in
      case generateImage env prompt of
        Rejects e \<Rightarrow> ([(s1, GenerateImage prompt)], s1, Some e)
      | Resolves imageUrl \<Rightarrow>
          ([(s1, GenerateImage prompt)],
           s1\<lparr>currentImageUrl := imageUrl, isImageLoading := False\<rparr>, None))"

text \<open>\<^verbatim>\<open>err instanceof Error ? err.message : fallback\<close> (lines 52 and 95).\<close>

definition errorText :: "string \<Rightarrow> thrown \<Rightarrow> string" where
  "errorText fallback err = (case err of ErrorObject message \<Rightarrow> message | NonErrorValue \<Rightarrow> fallback)"

text \<open>
  The \<^verbatim>\<open>catch\<close> and \<^verbatim>\<open>finally\<close> blocks shared by both handlers: a thrown value becomes the error
  text (the \<^verbatim>\<open>console.error\<close> call has no effect on the session), and \<^verbatim>\<open>isLoading\<close> is reset
  on every path.
\<close>

definition catchFinally :: "string \<Rightarrow> thrown option \<Rightarrow> session \<Rightarrow> session" where
  "catchFinally fallback thrownValue s =
     (case thrownValue of
        None \<Rightarrow> s\<lparr>isLoading := False\<rparr>
      | Some err \<Rightarrow> s\<lparr>error := Some (errorText fallback err), isLoading := False\<rparr>)"

text \<open>The body of the \<^verbatim>\<open>try\<close> of \<^verbatim>\<open>handleStartGame\<close> (lines 36 to 49).\<close>

definition startGameTry :: "services \<Rightarrow> string \<Rightarrow> session \<Rightarrow> trace \<times> session \<times> thrown option" where
  "startGameTry env theme s =
     (case getInitialScene env theme of
        Rejects e \<Rightarrow> ([(s, GetInitialScene theme)], s, Some e)
      | Resolves None \<Rightarrow>
          ([(s, GetInitialScene theme)],
           s\<lparr>error := Some ''Failed to initialize game: No data received from AI.''\<rparr>, None)
      | Resolves (Some initialData) \<Rightarrow>
          (let s1 = s\<lparr>gameState := Some initialData,
                      storyLog := [sceneDescription initialData],
                      gameStarted := True\<rparr> in
           if imagePrompt initialData \<noteq> [] then
             (case fetchImage env (imagePrompt initialData) s1 of
                (tr, s2, thrownValue) \<Rightarrow> ((s, GetInitialScene theme) # tr, s2, thrownValue))
           else ([(s, GetInitialScene theme)], s1, None)))"

text \<open>\<^verbatim>\<open>handleStartGame\<close> (lines 29 to 56): the trace of its requests and the session it leaves.\<close>

definition handleStartGame :: "services \<Rightarrow> string \<Rightarrow> session \<Rightarrow> trace \<times> session" where
  "handleStartGame env theme s =
     (if apiKeyMissing s then ([], s)
      else
        (case startGameTry env theme
                (s\<lparr>isLoading := True, error := None, storyLog := [], currentImageUrl := None\<rparr>) of
           (tr, s1, thrownValue) \<Rightarrow>
             (tr, catchFinally ''An unknown error occurred while starting the game.'' thrownValue s1)))"

text \<open>
  The body of the \<^verbatim>\<open>try\<close> of \<^verbatim>\<open>handleChoiceSelected\<close> (lines 70 to 92). \<^verbatim>\<open>current\<close> is the scene
  the handler's closure holds; \<^verbatim>\<open>logArg\<close> is the story log the closure holds, passed to the
  service, while the functional update of line 74 appends to the log of the session itself.
  Both branches on \<^verbatim>\<open>gameOver\<close> fetch the image when the prompt is not empty.
\<close>

definition choiceTry ::
    "services \<Rightarrow> GameStateFromAI \<Rightarrow> string list \<Rightarrow> string \<Rightarrow> session \<Rightarrow> trace \<times> session \<times> thrown option" where
  "choiceTry env current logArg choice s =
     (let req = GetNextScene (sceneDescription current) choice logArg in
      case getNextScene env (sceneDescription current) choice logArg of
        Rejects e \<Rightarrow> ([(s, req)], s, Some e)
      | Resolves None \<Rightarrow>
          ([(s, req)], s\<lparr>error := Some ''Failed to get next scene: No data received from AI.''\<rparr>, None)
      | Resolves (Some nextData) \<Rightarrow>
          (let s1 = s\<lparr>gameState := Some nextData\<rparr> in
           if \<not> gameOver nextData then
             (let s2 = s1\<lparr>storyLog := storyLog s1 @ [sceneDescription nextData]\<rparr> in
              if imagePrompt nextData \<noteq> [] then
                (case fetchImage env (imagePrompt nextData) s2 of
                   (tr, s3, thrownValue) \<Rightarrow> ((s, req) # tr, s3, thrownValue))
              else ([(s, req)], s2, None))
           else
             (if imagePrompt nextData \<noteq> [] then
                (case fetchImage env (imagePrompt nextData) s1 of
                   (tr, s3, thrownValue) \<Rightarrow> ((s, req) # tr, s3, thrownValue))
              else ([(s, req)], s1, None))))"

text \<open>\<^verbatim>\<open>handleChoiceSelected\<close> (lines 58 to 99).\<close>

definition handleChoiceSelected :: "services \<Rightarrow> string \<Rightarrow> session \<Rightarrow> trace \<times> session" where
  "handleChoiceSelected env choice s =
     (case gameState s of
        None \<Rightarrow> ([], s)
      | Some current \<Rightarrow>
          if apiKeyMissing s then ([], s)
          else
            (case choiceTry env current (storyLog s) choice
                    (s\<lparr>isLoading := True, error := None, currentImageUrl := None\<rparr>) of
               (tr, s1, thrownValue) \<Rightarrow>
                 (tr, catchFinally ''An unknown error occurred while processing your choice.''
                        thrownValue s1)))"

text \<open>\<^verbatim>\<open>handleRestartGame\<close> (lines 101 to 109): seven setters, no request.\<close>

definition handleRestartGame :: "session \<Rightarrow> session" where
  "handleRestartGame s =
     s\<lparr>gameStarted := False, gameState := None, currentImageUrl := None, storyLog := [],
       error := None, isLoading := False, isImageLoading := False\<rparr>"

section \<open>The rendered view (lines 111 to 151)\<close>

text \<open>
  What \<^verbatim>\<open>App\<close> returns, as the props it passes to each child component. A conditional
  \<^verbatim>\<open>cond && <Child/>\<close> is an option or a flag.
\<close>

record imageDisplay =
  imageUrl :: "string option"
  altText :: string
  imageSpinner :: bool

record sceneBlock =
  image :: imageDisplay
  description :: string
  inlineLoading :: bool
  choicesList :: "(string list \<times> bool) option"

record mainView =
  errorMessage :: string
  topLoading :: bool
  scene :: "sceneBlock option"

datatype view =
    CriticalErrorView string
  | GameStartScreen bool
  | GameOverScreen "string option"
  | MainView mainView

text \<open>\<^verbatim>\<open>error || (apiKeyMissing ? "API Key is missing, ..." : "")\<close> (line 134): an empty error text is falsy.\<close>

definition bannerText :: "session \<Rightarrow> string" where
  "bannerText s =
     (let other = (if apiKeyMissing s then ''API Key is missing, game functionality is limited.'' else [])
      in case error s of None \<Rightarrow> other | Some e \<Rightarrow> if e \<noteq> [] then e else other)"

text \<open>The block rendered under \<^verbatim>\<open>gameState && (...)\<close> (lines 138 to 145).\<close>

definition renderScene :: "session \<Rightarrow> GameStateFromAI \<Rightarrow> sceneBlock" where
  "renderScene s g =
     \<lparr>image = \<lparr>imageUrl = currentImageUrl s,
                altText = (if imagePrompt g \<noteq> [] then imagePrompt g else ''Scene image''),
                imageSpinner = isImageLoading s\<rparr>,
      description = sceneDescription g,
      inlineLoading = (isLoading s \<and> sceneDescription g \<noteq> []),
      choicesList = (if \<not> isLoading s then Some (choices g, isLoading s) else None)\<rparr>"

definition renderMain :: "session \<Rightarrow> mainView" where
  "renderMain s =
     \<lparr>errorMessage = bannerText s,
      topLoading = (isLoading s \<and> (case gameState s of None \<Rightarrow> True | Some g \<Rightarrow> sceneDescription g = [])),
      scene = map_option (renderScene s) (gameState s)\<rparr>"

text \<open>The four returns of \<^verbatim>\<open>App\<close>, in the order of the source.\<close>

definition App :: "session \<Rightarrow> view" where
  "App s =
     (if apiKeyMissing s \<and> \<not> gameStarted s then
        CriticalErrorView ''CRITICAL ERROR: API Key is not configured. The application cannot function. Please set the API_KEY environment variable.''
      else if \<not> gameStarted s then GameStartScreen (isLoading s)
      else
        (case gameState s of
           None \<Rightarrow> MainView (renderMain s)
         | Some g \<Rightarrow> if gameOver g then GameOverScreen (gameOverMessage g) else MainView (renderMain s)))"

text \<open>
  The callback props a view passes down: \<^verbatim>\<open>onStartGame\<close> to the start screen, \<^verbatim>\<open>onRestart\<close> to the
  game-over screen, \<^verbatim>\<open>onChoiceSelected\<close> to the choices list when it is rendered. These are the
  only places where the handlers are handed out, so a user action can reach a handler only
  through a view that carries its callback.
\<close>

datatype callback = OnStartGame | OnChoiceSelected | OnRestart

fun callbacks :: "view \<Rightarrow> callback list" where
  "callbacks (CriticalErrorView _) = []"
| "callbacks (GameStartScreen _) = [OnStartGame]"
| "callbacks (GameOverScreen _) = [OnRestart]"
| "callbacks (MainView m) =
     (case scene m of
        None \<Rightarrow> []
      | Some b \<Rightarrow> (case choicesList b of None \<Rightarrow> [] | Some _ \<Rightarrow> [OnChoiceSelected]))"

section \<open>User actions\<close>

text \<open>
  The three actions of the orchestrator (startGame, chooseOption, restart). \<open>invoke\<close> runs the
  handler of an action; \<open>userAction\<close> is the action as the user can perform it: it reaches the
  handler only when the rendered view carries the callback, and is otherwise not accepted.
\<close>

datatype action = StartGame string | ChooseOption string | Restart

fun callbackOf :: "action \<Rightarrow> callback" where
  "callbackOf (StartGame _) = OnStartGame"
| "callbackOf (ChooseOption _) = OnChoiceSelected"
| "callbackOf Restart = OnRestart"

fun invoke :: "services \<Rightarrow> action \<Rightarrow> session \<Rightarrow> trace \<times> session" where
  "invoke env (StartGame theme) s = handleStartGame env theme s"
| "invoke env (ChooseOption choice) s = handleChoiceSelected env choice s"
| "invoke env Restart s = ([], handleRestartGame s)"

definition userAction :: "services \<Rightarrow> action \<Rightarrow> session \<Rightarrow> trace \<times> session" where
  "userAction env a s =
     (if callbackOf a \<in> set (callbacks (App s)) then invoke env a s else ([], s))"

text \<open>
  A sequence of handler invocations, each with the service behaviour it meets and each run to
  its end before the next begins; the traces are concatenated in order. Actions taken while a
  handler is suspended are the subject of the next section.
\<close>

fun invokeAll :: "(services \<times> action) list \<Rightarrow> session \<Rightarrow> trace \<times> session" where
  "invokeAll [] s = ([], s)"
| "invokeAll ((env, a) # rest) s =
     (case invoke env a s of
        (tr, s1) \<Rightarrow> (case invokeAll rest s1 of (tr2, s2) \<Rightarrow> (tr @ tr2, s2)))"

section \<open>Handlers suspended at an await\<close>

text \<open>
  A handler is an \<^verbatim>\<open>async\<close> function: at each \<^verbatim>\<open>await\<close> it suspends, the component renders the
  session as it stands, and the user may act on that view before the promise settles. Nothing
  in the source cancels a suspended handler. A suspended handler is recorded by the request
  it awaits; for an image request, by the handler that issued it as well, since the two
  \<^verbatim>\<open>catch\<close> blocks differ in their fallback text.
\<close>

datatype owner = StartHandler | ChoiceHandler

datatype pending =
    PendingInitial string
  | PendingNext string string "string list"
  | PendingImage owner string

fun fallbackText :: "owner \<Rightarrow> string" where
  "fallbackText StartHandler = ''An unknown error occurred while starting the game.''"
| "fallbackText ChoiceHandler = ''An unknown error occurred while processing your choice.''"

fun requestOf :: "pending \<Rightarrow> request" where
  "requestOf (PendingInitial theme) = GetInitialScene theme"
| "requestOf (PendingNext current choice logArg) = GetNextScene current choice logArg"
| "requestOf (PendingImage _ prompt) = GenerateImage prompt"

text \<open>
  The synchronous part of \<^verbatim>\<open>handleStartGame\<close> up to its first \<^verbatim>\<open>await\<close> (lines 30 to 36), and of
  \<^verbatim>\<open>handleChoiceSelected\<close> (lines 59 to 70): the session it leaves and the request it suspends on,
  if it passes its guard.
\<close>

definition beginStart :: "string \<Rightarrow> session \<Rightarrow> session \<times> pending option" where
  "beginStart theme s =
     (if apiKeyMissing s then (s, None)
      else (s\<lparr>isLoading := True, error := None, storyLog := [], currentImageUrl := None\<rparr>,
            Some (PendingInitial theme)))"

definition beginChoice :: "string \<Rightarrow> session \<Rightarrow> session \<times> pending option" where
  "beginChoice choice s =
     (case gameState s of
        None \<Rightarrow> (s, None)
      | Some current \<Rightarrow>
          if apiKeyMissing s then (s, None)
          else (s\<lparr>isLoading := True, error := None, currentImageUrl := None\<rparr>,
                Some (PendingNext (sceneDescription current) choice (storyLog s))))"

text \<open>
  How a promise settles. A suspended handler resumes on the session as it stands then (the
  setters write to the component's current state), runs to its next \<^verbatim>\<open>await\<close> or through its
  \<^verbatim>\<open>catch\<close> and \<^verbatim>\<open>finally\<close> blocks to its end, and returns the request it suspends on next, if any.
  An answer of the other kind cannot arrive; the handler stays suspended.
\<close>

datatype answer =
    StoryAnswer "GameStateFromAI option promise"
  | ImageAnswer "string option promise"

fun resume :: "pending \<Rightarrow> answer \<Rightarrow> session \<Rightarrow> session \<times> pending option" where
  "resume (PendingInitial theme) (StoryAnswer r) s =
     (case r of
        Rejects e \<Rightarrow> (catchFinally (fallbackText StartHandler) (Some e) s, None)
      | Resolves None \<Rightarrow>
          (catchFinally (fallbackText StartHandler) None
             (s\<lparr>error := Some ''Failed to initialize game: No data received from AI.''\<rparr>), None)
      | Resolves (Some initialData) \<Rightarrow>
          (let s1 = s\<lparr>gameState := Some initialData,
                      storyLog := [sceneDescription initialData],
                      gameStarted := True\<rparr> in
           if imagePrompt initialData \<noteq> [] then
             (s1\<lparr>isImageLoading := True\<rparr>, Some (PendingImage StartHandler (imagePrompt initialData)))
           else (catchFinally (fallbackText StartHandler) None s1, None)))"
| "resume (PendingNext current choice logArg) (StoryAnswer r) s =
     (case r of
        Rejects e \<Rightarrow> (catchFinally (fallbackText ChoiceHandler) (Some e) s, None)
      | Resolves None \<Rightarrow>
          (catchFinally (fallbackText ChoiceHandler) None
             (s\<lparr>error := Some ''Failed to get next scene: No data received from AI.''\<rparr>), None)
      | Resolves (Some nextData) \<Rightarrow>
          (let s1 = s\<lparr>gameState := Some nextData\<rparr>;
               s2 = (if \<not> gameOver nextData
                     then s1\<lparr>storyLog := storyLog s1 @ [sceneDescription nextData]\<rparr> else s1) in
           if imagePrompt nextData \<noteq> [] then
             (s2\<lparr>isImageLoading := True\<rparr>, Some (PendingImage ChoiceHandler (imagePrompt nextData)))
           else (catchFinally (fallbackText ChoiceHandler) None s2, None)))"
| "resume (PendingImage own prompt) (ImageAnswer r) s =
     (case r of
        Rejects e \<Rightarrow> (catchFinally (fallbackText own) (Some e) s, None)
      | Resolves url \<Rightarrow>
          (catchFinally (fallbackText own) None
             (s\<lparr>currentImageUrl := url, isImageLoading := False\<rparr>), None))"
| "resume p _ s = (s, Some p)"

text \<open>
  What happens to the component: the user acts on the rendered view (the action reaches its
  handler only when that view carries the callback, as in \<open>userAction\<close>), or the promise of the
  suspended handler at a given position settles. A configuration is the session with the
  suspended handlers, oldest first.
\<close>

datatype event = User action | Settle nat answer

type_synonym config = "session \<times> pending list"

fun suspend :: "session \<times> pending option \<Rightarrow> pending list \<Rightarrow> config" where
  "suspend (s, None) waiting = (s, waiting)"
| "suspend (s, Some p) waiting = (s, waiting @ [p])"

fun step :: "event \<Rightarrow> config \<Rightarrow> config" where
  "step (User a) (s, waiting) =
     (if callbackOf a \<in> set (callbacks (App s)) then
        (case a of
           StartGame theme \<Rightarrow> suspend (beginStart theme s) waiting
         | ChooseOption choice \<Rightarrow> suspend (beginChoice choice s) waiting
         | Restart \<Rightarrow> (handleRestartGame s, waiting))
      else (s, waiting))"
| "step (Settle i ans) (s, waiting) =
     (if i < length waiting then
        (case resume (waiting ! i) ans s of
           (s1, None) \<Rightarrow> (s1, take i waiting @ drop (Suc i) waiting)
         | (s1, Some p) \<Rightarrow> (s1, waiting[i := p]))
      else (s, waiting))"

fun run :: "event list \<Rightarrow> config \<Rightarrow> config" where
  "run [] c = c"
| "run (ev # evs) c = run evs (step ev c)"

text \<open>
  A handler that runs alone, its promises settled by a given service: the service is asked
  exactly the request the handler is suspended on. A handler suspends at most twice.
\<close>

fun answerOf :: "services \<Rightarrow> pending \<Rightarrow> answer" where
  "answerOf env (PendingInitial theme) = StoryAnswer (getInitialScene env theme)"
| "answerOf env (PendingNext current choice logArg) =
     StoryAnswer (getNextScene env current choice logArg)"
| "answerOf env (PendingImage _ prompt) = ImageAnswer (generateImage env prompt)"

definition settleAlone :: "services \<Rightarrow> pending \<Rightarrow> session \<Rightarrow> trace \<times> session" where
  "settleAlone env p s =
     (case resume p (answerOf env p) s of
        (s1, None) \<Rightarrow> ([(s, requestOf p)], s1)
      | (s1, Some p1) \<Rightarrow>
          ([(s, requestOf p), (s1, requestOf p1)], fst (resume p1 (answerOf env p1) s1)))"

section \<open>Observers of a playthrough\<close>

text \<open>
  The scene that \<^verbatim>\<open>handleChoiceSelected\<close> commits with \<^verbatim>\<open>setGameState(nextData)\<close> (line 72), if it
  gets that far: the handler must pass its guard (line 59) and the promise must resolve to data
  (line 71).
\<close>

definition sceneReceived :: "services \<Rightarrow> string \<Rightarrow> session \<Rightarrow> GameStateFromAI option" where
  "sceneReceived env choice s =
     (case gameState s of
        None \<Rightarrow> None
      | Some current \<Rightarrow>
          if apiKeyMissing s then None
          else (case getNextScene env (sceneDescription current) choice (storyLog s) of
                  Rejects _ \<Rightarrow> None
                | Resolves r \<Rightarrow> r))"

text \<open>
  The story log \<^verbatim>\<open>handleChoiceSelected\<close> leaves once a scene has arrived: the two branches on
  \<^verbatim>\<open>gameOver\<close> (lines 73 to 89) differ only in the append of line 74.
\<close>

definition logAfter :: "session \<Rightarrow> GameStateFromAI \<Rightarrow> string list" where
  "logAfter s d = (if gameOver d then storyLog s else storyLog s @ [sceneDescription d])"

text \<open>A run of choices, each with the service behaviour it meets: the session it leaves.\<close>

fun chooseAll :: "(services \<times> string) list \<Rightarrow> session \<Rightarrow> session" where
  "chooseAll [] s = s"
| "chooseAll ((env, choice) # rest) s = chooseAll rest (snd (handleChoiceSelected env choice s))"

text \<open>The scenes committed during such a run, in play order.\<close>

fun scenesShown :: "(services \<times> string) list \<Rightarrow> session \<Rightarrow> GameStateFromAI list" where
  "scenesShown [] s = []"
| "scenesShown ((env, choice) # rest) s =
     (case sceneReceived env choice s of None \<Rightarrow> [] | Some d \<Rightarrow> [d])
       @ scenesShown rest (snd (handleChoiceSelected env choice s))"

definition nonGameOver :: "GameStateFromAI list \<Rightarrow> GameStateFromAI list" where
  "nonGameOver ds = filter (\<lambda>d. \<not> gameOver d) ds"

text \<open>
  The sessions that stand between two user actions when every handler has run to its end
  before the next action: no story request is pending; a started game has a scene and a key; a
  game not started has no scene, no log, no image and no image spinner. The mount effect
  establishes this and a handler that runs alone keeps it. It is not an invariant of the
  component: a handler left suspended by a restart writes into the next game's session.
\<close>

definition restingSession :: "session \<Rightarrow> bool" where
  "restingSession s =
     (\<not> isLoading s \<and>
      (if gameStarted s then gameState s \<noteq> None \<and> \<not> apiKeyMissing s
       else gameState s = None \<and> storyLog s = [] \<and> currentImageUrl s = None \<and>
            \<not> isImageLoading s))"

text \<open>The story requests of a trace (everything but the image requests).\<close>

fun isStoryRequest :: "request \<Rightarrow> bool" where
  "isStoryRequest (GetInitialScene _) = True"
| "isStoryRequest (GetNextScene _ _ _) = True"
| "isStoryRequest (GenerateImage _) = False"

definition storyRequests :: "trace \<Rightarrow> request list" where
  "storyRequests tr = filter isStoryRequest (map snd tr)"

section \<open>Concrete sessions and services\<close>

text \<open>A service whose three operations answer the same whatever their arguments.\<close>

definition constServices ::
    "GameStateFromAI option promise \<Rightarrow> GameStateFromAI option promise \<Rightarrow> string option promise \<Rightarrow> services" where
  "constServices initialAnswer nextAnswer imageAnswer =
     \<lparr>getInitialScene = (\<lambda>_. initialAnswer),
      getNextScene = (\<lambda>_ _ _. nextAnswer),
      generateImage = (\<lambda>_. imageAnswer)\<rparr>"

definition library_scene :: GameStateFromAI where
  "library_scene =
     \<lparr>sceneDescription = ''You stand before a library...'',
      imagePrompt = ''a haunted library exterior'',
      choices = [''Enter'', ''Walk away''],
      gameOver = False,
      gameOverMessage = None\<rparr>"

definition hall_scene :: GameStateFromAI where
  "hall_scene =
     \<lparr>sceneDescription = ''Dust hangs in the reading hall.'',
      imagePrompt = ''a dusty reading hall'',
      choices = [''Climb the ladder'', ''Leave''],
      gameOver = False,
      gameOverMessage = None\<rparr>"

definition vanish_scene :: GameStateFromAI where
  "vanish_scene =
     \<lparr>sceneDescription = ''The shelves close behind you.'',
      imagePrompt = ''endless dark stacks'',
      choices = [],
      gameOver = True,
      gameOverMessage = Some ''You vanish into the stacks forever.''\<rparr>"

text \<open>The session once the library scene and its image have arrived.\<close>

definition playing_library :: session where
  "playing_library =
     \<lparr>gameState = Some library_scene, currentImageUrl = Some ''library.png'',
      storyLog = [''You stand before a library...''], isLoading = False,
      isImageLoading = False, error = None, gameStarted = True, apiKeyMissing = False\<rparr>"

text \<open>A service that answers every request, and three attempts made against it.\<close>

definition willing_services :: services where
  "willing_services =
     constServices (Resolves (Some library_scene)) (Resolves (Some hall_scene))
       (Resolves (Some ''library.png''))"

definition three_attempts :: "(services \<times> action) list" where
  "three_attempts =
     [(willing_services, StartGame ''haunted library''),
      (willing_services, ChooseOption ''Enter''),
      (willing_services, Restart)]"

text \<open>A service whose story answers arrive but whose image requests are rejected.\<close>

definition image_down :: services where
  "image_down =
     constServices (Resolves (Some library_scene)) (Resolves (Some hall_scene))
       (Rejects (ErrorObject ''Image quota exceeded''))"

text \<open>A service whose next scene ends the story.\<close>

definition fatal_services :: services where
  "fatal_services =
     constServices (Resolves (Some library_scene)) (Resolves (Some vanish_scene))
       (Resolves (Some ''stacks.png''))"

text \<open>A service whose story requests are rejected.\<close>

definition story_down :: services where
  "story_down =
     constServices (Rejects (ErrorObject ''Story service unavailable''))
       (Rejects (ErrorObject ''Story service unavailable'')) (Resolves None)"

text \<open>A service whose opening scene already ends the story.\<close>

definition doomed_services :: services where
  "doomed_services =
     constServices (Resolves (Some vanish_scene)) (Resolves None) (Resolves (Some ''stacks.png''))"

text \<open>Two choices: the first brings the reading hall, the second ends the story.\<close>

definition two_choices :: "(services \<times> string) list" where
  "two_choices = [(willing_services, ''Enter''), (fatal_services, ''Climb the ladder'')]"

text \<open>
  A run in which a handler is left suspended by a restart. The first game is played to a scene
  that ends the story; while the image of that scene is still awaited the game-over screen is
  up, the user restarts, starts a second game and, once its opening scene and image are in,
  makes a choice. The run ends with two handlers suspended: the first game's, on its image,
  and the second game's, on \<^verbatim>\<open>getNextScene\<close>.
\<close>

definition stale_run :: "event list" where
  "stale_run =
     [User (StartGame ''haunted library''),
      Settle 0 (StoryAnswer (Resolves (Some library_scene))),
      Settle 0 (ImageAnswer (Resolves (Some ''library.png''))),
      User (ChooseOption ''Enter''),
      Settle 0 (StoryAnswer (Resolves (Some vanish_scene))),
      User Restart,
      User (StartGame ''haunted library''),
      Settle (Suc 0) (StoryAnswer (Resolves (Some library_scene))),
      Settle (Suc 0) (ImageAnswer (Resolves (Some ''library.png''))),
      User (ChooseOption ''Enter'')]"

text \<open>The image of the first game arrives.\<close>

definition stale_settle :: event where
  "stale_settle = Settle 0 (ImageAnswer (Resolves (Some ''stacks.png'')))"

section \<open>The handlers, case by case\<close>

lemma start_blocked: "apiKeyMissing s \<Longrightarrow> handleStartGame env theme s = ([], s)"
  by (simp add: handleStartGame_def)

lemma start_rejected:
  "\<not> apiKeyMissing s \<Longrightarrow> getInitialScene env theme = Rejects e \<Longrightarrow>
   handleStartGame env theme s =
     ([(s\<lparr>isLoading := True, error := None, storyLog := [], currentImageUrl := None\<rparr>,
        GetInitialScene theme)],
      s\<lparr>isLoading := False, storyLog := [], currentImageUrl := None,
        error := Some (errorText ''An unknown error occurred while starting the game.'' e)\<rparr>)"
  by (simp add: handleStartGame_def startGameTry_def catchFinally_def Let_def)

lemma start_no_data:
  "\<not> apiKeyMissing s \<Longrightarrow> getInitialScene env theme = Resolves None \<Longrightarrow>
   handleStartGame env theme s =
     ([(s\<lparr>isLoading := True, error := None, storyLog := [], currentImageUrl := None\<rparr>,
        GetInitialScene theme)],
      s\<lparr>isLoading := False, storyLog := [], currentImageUrl := None,
        error := Some ''Failed to initialize game: No data received from AI.''\<rparr>)"
  by (simp add: handleStartGame_def startGameTry_def catchFinally_def Let_def)

lemma start_no_prompt:
  "\<not> apiKeyMissing s \<Longrightarrow> getInitialScene env theme = Resolves (Some d) \<Longrightarrow>
   imagePrompt d = [] \<Longrightarrow>
   handleStartGame env theme s =
     ([(s\<lparr>isLoading := True, error := None, storyLog := [], currentImageUrl := None\<rparr>,
        GetInitialScene theme)],
      s\<lparr>isLoading := False, storyLog := [sceneDescription d], currentImageUrl := None,
        gameState := Some d, gameStarted := True, error := None\<rparr>)"
  by (simp add: handleStartGame_def startGameTry_def catchFinally_def Let_def)

lemma start_image_resolved:
  "\<not> apiKeyMissing s \<Longrightarrow> getInitialScene env theme = Resolves (Some d) \<Longrightarrow>
   imagePrompt d \<noteq> [] \<Longrightarrow> generateImage env (imagePrompt d) = Resolves url \<Longrightarrow>
   handleStartGame env theme s =
     ([(s\<lparr>isLoading := True, error := None, storyLog := [], currentImageUrl := None\<rparr>,
        GetInitialScene theme),
       (s\<lparr>isLoading := True, error := None, storyLog := [sceneDescription d],
          currentImageUrl := None, gameState := Some d, gameStarted := True,
          isImageLoading := True\<rparr>,
        GenerateImage (imagePrompt d))],
      s\<lparr>isLoading := False, storyLog := [sceneDescription d], currentImageUrl := url,
        gameState := Some d, gameStarted := True, isImageLoading := False, error := None\<rparr>)"
  by (simp add: handleStartGame_def startGameTry_def catchFinally_def fetchImage_def Let_def)

lemma start_image_rejected:
  "\<not> apiKeyMissing s \<Longrightarrow> getInitialScene env theme = Resolves (Some d) \<Longrightarrow>
   imagePrompt d \<noteq> [] \<Longrightarrow> generateImage env (imagePrompt d) = Rejects e \<Longrightarrow>
   handleStartGame env theme s =
     ([(s\<lparr>isLoading := True, error := None, storyLog := [], currentImageUrl := None\<rparr>,
        GetInitialScene theme),
       (s\<lparr>isLoading := True, error := None, storyLog := [sceneDescription d],
          currentImageUrl := None, gameState := Some d, gameStarted := True,
          isImageLoading := True\<rparr>,
        GenerateImage (imagePrompt d))],
      s\<lparr>isLoading := False, storyLog := [sceneDescription d], currentImageUrl := None,
        gameState := Some d, gameStarted := True, isImageLoading := True,
        error := Some (errorText ''An unknown error occurred while starting the game.'' e)\<rparr>)"
  by (simp add: handleStartGame_def startGameTry_def catchFinally_def fetchImage_def Let_def)

lemma choice_blocked:
  "gameState s = None \<or> apiKeyMissing s \<Longrightarrow> handleChoiceSelected env choice s = ([], s)"
  by (auto simp: handleChoiceSelected_def split: option.splits)

lemma choice_rejected:
  "gameState s = Some g \<Longrightarrow> \<not> apiKeyMissing s \<Longrightarrow>
   getNextScene env (sceneDescription g) choice (storyLog s) = Rejects e \<Longrightarrow>
   handleChoiceSelected env choice s =
     ([(s\<lparr>isLoading := True, error := None, currentImageUrl := None\<rparr>,
        GetNextScene (sceneDescription g) choice (storyLog s))],
      s\<lparr>isLoading := False, currentImageUrl := None,
        error := Some (errorText ''An unknown error occurred while processing your choice.'' e)\<rparr>)"
  by (simp add: handleChoiceSelected_def choiceTry_def catchFinally_def Let_def)

lemma choice_no_data:
  "gameState s = Some g \<Longrightarrow> \<not> apiKeyMissing s \<Longrightarrow>
   getNextScene env (sceneDescription g) choice (storyLog s) = Resolves None \<Longrightarrow>
   handleChoiceSelected env choice s =
     ([(s\<lparr>isLoading := True, error := None, currentImageUrl := None\<rparr>,
        GetNextScene (sceneDescription g) choice (storyLog s))],
      s\<lparr>isLoading := False, currentImageUrl := None,
        error := Some ''Failed to get next scene: No data received from AI.''\<rparr>)"
  by (simp add: handleChoiceSelected_def choiceTry_def catchFinally_def Let_def)

lemma choice_no_prompt:
  "gameState s = Some g \<Longrightarrow> \<not> apiKeyMissing s \<Longrightarrow>
   getNextScene env (sceneDescription g) choice (storyLog s) = Resolves (Some d) \<Longrightarrow>
   imagePrompt d = [] \<Longrightarrow>
   handleChoiceSelected env choice s =
     ([(s\<lparr>isLoading := True, error := None, currentImageUrl := None\<rparr>,
        GetNextScene (sceneDescription g) choice (storyLog s))],
      s\<lparr>isLoading := False, currentImageUrl := None, error := None,
        gameState := Some d, storyLog := logAfter s d\<rparr>)"
  by (simp add: handleChoiceSelected_def choiceTry_def catchFinally_def logAfter_def Let_def)

lemma choice_image_resolved:
  "gameState s = Some g \<Longrightarrow> \<not> apiKeyMissing s \<Longrightarrow>
   getNextScene env (sceneDescription g) choice (storyLog s) = Resolves (Some d) \<Longrightarrow>
   imagePrompt d \<noteq> [] \<Longrightarrow> generateImage env (imagePrompt d) = Resolves url \<Longrightarrow>
   handleChoiceSelected env choice s =
     ([(s\<lparr>isLoading := True, error := None, currentImageUrl := None\<rparr>,
        GetNextScene (sceneDescription g) choice (storyLog s)),
       (s\<lparr>isLoading := True, error := None, currentImageUrl := None, gameState := Some d,
          storyLog := logAfter s d, isImageLoading := True\<rparr>,
        GenerateImage (imagePrompt d))],
      s\<lparr>isLoading := False, currentImageUrl := url, error := None, gameState := Some d,
        storyLog := logAfter s d, isImageLoading := False\<rparr>)"
  by (simp add: handleChoiceSelected_def choiceTry_def catchFinally_def fetchImage_def
      logAfter_def Let_def)

lemma choice_image_rejected:
  "gameState s = Some g \<Longrightarrow> \<not> apiKeyMissing s \<Longrightarrow>
   getNextScene env (sceneDescription g) choice (storyLog s) = Resolves (Some d) \<Longrightarrow>
   imagePrompt d \<noteq> [] \<Longrightarrow> generateImage env (imagePrompt d) = Rejects e \<Longrightarrow>
   handleChoiceSelected env choice s =
     ([(s\<lparr>isLoading := True, error := None, currentImageUrl := None\<rparr>,
        GetNextScene (sceneDescription g) choice (storyLog s)),
       (s\<lparr>isLoading := True, error := None, currentImageUrl := None, gameState := Some d,
          storyLog := logAfter s d, isImageLoading := True\<rparr>,
        GenerateImage (imagePrompt d))],
      s\<lparr>isLoading := False, currentImageUrl := None, gameState := Some d,
        storyLog := logAfter s d, isImageLoading := True,
        error := Some (errorText ''An unknown error occurred while processing your choice.'' e)\<rparr>)"
  by (simp add: handleChoiceSelected_def choiceTry_def catchFinally_def fetchImage_def
      logAfter_def Let_def)

text \<open>The concrete playing session is the one a successful start leaves.\<close>

lemma playing_library_reached:
  "snd (handleStartGame
          (constServices (Resolves (Some library_scene)) (Resolves None) (Resolves (Some ''library.png'')))
          ''haunted library'' initial_session) = playing_library"
  by (simp add: start_image_resolved constServices_def library_scene_def initial_session_def
      playing_library_def)

text \<open>What the concrete services answer, and where the concrete sessions stand.\<close>

lemma image_down_answers:
  "getInitialScene image_down theme = Resolves (Some library_scene)"
  "getNextScene image_down current choice logArg = Resolves (Some hall_scene)"
  "generateImage image_down prompt = Rejects (ErrorObject ''Image quota exceeded'')"
  by (simp_all add: image_down_def constServices_def)

lemma fatal_services_answers:
  "getInitialScene fatal_services theme = Resolves (Some library_scene)"
  "getNextScene fatal_services current choice logArg = Resolves (Some vanish_scene)"
  "generateImage fatal_services prompt = Resolves (Some ''stacks.png'')"
  by (simp_all add: fatal_services_def constServices_def)

lemma concrete_sessions:
  "\<not> apiKeyMissing initial_session"
  "\<not> apiKeyMissing playing_library"
  "gameStarted playing_library"
  "\<not> isLoading playing_library"
  "gameState playing_library = Some library_scene"
  "storyLog playing_library = [''You stand before a library...'']"
  "currentImageUrl playing_library = Some ''library.png''"
  by (simp_all add: initial_session_def playing_library_def)

lemma concrete_prompts:
  "imagePrompt library_scene \<noteq> []" "imagePrompt hall_scene \<noteq> []" "imagePrompt vanish_scene \<noteq> []"
  "\<not> gameOver library_scene" "\<not> gameOver hall_scene" "gameOver vanish_scene"
  by (simp_all add: library_scene_def hall_scene_def vanish_scene_def)

lemma story_down_answers:
  "getInitialScene story_down theme = Rejects (ErrorObject ''Story service unavailable'')"
  "getNextScene story_down current choice logArg = Rejects (ErrorObject ''Story service unavailable'')"
  by (simp_all add: story_down_def constServices_def)

lemma doomed_services_answers:
  "getInitialScene doomed_services theme = Resolves (Some vanish_scene)"
  "generateImage doomed_services prompt = Resolves (Some ''stacks.png'')"
  by (simp_all add: doomed_services_def constServices_def)

section \<open>A handler run alone is its suspended parts in sequence\<close>

text \<open>
  The handlers of the first section are the synchronous part followed by the resumptions, with
  every promise settled by the service before anything else happens.
\<close>

lemma handleStartGame_alone:
  "handleStartGame env theme s =
     (case beginStart theme s of
        (s0, None) \<Rightarrow> ([], s0)
      | (s0, Some p) \<Rightarrow> settleAlone env p s0)"
  by (simp add: handleStartGame_def startGameTry_def fetchImage_def beginStart_def
      settleAlone_def Let_def split: promise.splits option.splits)

lemma handleChoiceSelected_alone:
  "handleChoiceSelected env choice s =
     (case beginChoice choice s of
        (s0, None) \<Rightarrow> ([], s0)
      | (s0, Some p) \<Rightarrow> settleAlone env p s0)"
  by (simp add: handleChoiceSelected_def choiceTry_def fetchImage_def beginChoice_def
      settleAlone_def Let_def split: promise.splits option.splits)

section \<open>Sessions between two actions\<close>

lemma resting_mount: "restingSession (mountEffect apiKey initial_session)"
  by (simp add: restingSession_def mountEffect_def initial_session_def)

lemma resting_start: "restingSession s \<Longrightarrow> restingSession (snd (handleStartGame env theme s))"
  by (auto simp: restingSession_def handleStartGame_def startGameTry_def fetchImage_def
      catchFinally_def Let_def split: promise.splits option.splits if_splits)

lemma resting_choice:
  "restingSession s \<Longrightarrow> restingSession (snd (handleChoiceSelected env choice s))"
  by (auto simp: restingSession_def handleChoiceSelected_def choiceTry_def fetchImage_def
      catchFinally_def Let_def split: promise.splits option.splits if_splits)

lemma resting_restart: "restingSession (handleRestartGame s)"
  by (simp add: restingSession_def handleRestartGame_def)

lemma resting_invoke: "restingSession s \<Longrightarrow> restingSession (snd (invoke env a s))"
  by (cases a) (simp_all add: resting_start resting_choice resting_restart)

lemma invokeAll_step:
  "snd (invokeAll ((env, a) # rest) s) = snd (invokeAll rest (snd (invoke env a s)))"
  by (simp split: prod.splits)

lemma resting_invokeAll: "restingSession s \<Longrightarrow> restingSession (snd (invokeAll evs s))"
proof (induction evs arbitrary: s)
  case Nil
  then show ?case by simp
next
  case (Cons ev evs)
  obtain env a where ev: "ev = (env, a)" by (cases ev)
  from resting_invoke [OF Cons.prems, of env a]
  have "restingSession (snd (invokeAll evs (snd (invoke env a s))))"
    by (rule Cons.IH)
  then show ?case
    by (simp only: ev invokeAll_step)
qed

text \<open>
  Every session reached from the mount by handlers that each run to their end before the next
  action is such a session; in particular a session with a scene is then a started game with a
  key.
\<close>

lemma reached_sessions_rest:
  "restingSession (snd (invokeAll evs (mountEffect apiKey initial_session)))"
  by (rule resting_invokeAll [OF resting_mount])

lemma scene_means_started:
  "restingSession s \<Longrightarrow> gameState s = Some g \<Longrightarrow> gameStarted s \<and> \<not> apiKeyMissing s"
  by (auto simp: restingSession_def split: if_splits)

text \<open>
  With a handler suspended this fails. In the run with a restart, once the user has restarted
  (the first six events) the image of the finished game arrives and is written into the
  session of a game that has not started.
\<close>

lemma stale_write_after_restart:
  "run (take 6 stale_run @ [stale_settle]) (initial_session, []) =
     (initial_session\<lparr>currentImageUrl := Some ''stacks.png''\<rparr>, []) \<and>
   \<not> restingSession (fst (run (take 6 stale_run @ [stale_settle]) (initial_session, [])))"
  by (simp add: stale_run_def stale_settle_def beginStart_def beginChoice_def App_def
      renderMain_def renderScene_def handleRestartGame_def catchFinally_def initial_session_def
      library_scene_def vanish_scene_def restingSession_def Let_def)

text \<open>
  From a resting session in which no game is started, a rejected \<^verbatim>\<open>getInitialScene\<close> changes the
  error text and nothing else: the log and the image it clears were empty already.
\<close>

lemma failed_start_from_rest:
  assumes "restingSession s" and "\<not> gameStarted s" and "\<not> apiKeyMissing s"
    and "getInitialScene env theme = Rejects e"
  shows "snd (handleStartGame env theme s) =
           s\<lparr>error := Some (errorText ''An unknown error occurred while starting the game.'' e)\<rparr>"
  using assms by (cases s) (simp add: start_rejected restingSession_def)

section \<open>Restart\<close>

text \<open>
  C3. Whatever the session, \<^verbatim>\<open>handleRestartGame\<close> leaves the game state null, the image reference
  null, the story log empty, the error null, both loading flags false and the game-started flag
  false: the session is the initial one, with the credential flag as it was. A second restart
  changes nothing more.
\<close>

theorem restart_yields_initial:
  "gameState (handleRestartGame s) = None \<and>
   currentImageUrl (handleRestartGame s) = None \<and>
   storyLog (handleRestartGame s) = [] \<and>
   error (handleRestartGame s) = None \<and>
   isLoading (handleRestartGame s) = False \<and>
   isImageLoading (handleRestartGame s) = False \<and>
   gameStarted (handleRestartGame s) = False \<and>
   handleRestartGame s = initial_session\<lparr>apiKeyMissing := apiKeyMissing s\<rparr> \<and>
   handleRestartGame (handleRestartGame s) = handleRestartGame s"
  by (cases s) (simp add: handleRestartGame_def initial_session_def)

text \<open>
  C10. \<^verbatim>\<open>handleRestartGame\<close> does not touch \<^verbatim>\<open>apiKeyMissing\<close>; when the flag is set, the session
  after a restart still renders the critical error screen, which carries no callback.
\<close>

theorem restart_keeps_credential_flag:
  "apiKeyMissing (handleRestartGame s) = apiKeyMissing s \<and>
   (apiKeyMissing s \<longrightarrow>
      App (handleRestartGame s) =
        CriticalErrorView ''CRITICAL ERROR: API Key is not configured. The application cannot function. Please set the API_KEY environment variable.'' \<and>
      callbacks (App (handleRestartGame s)) = [])"
  by (simp add: handleRestartGame_def App_def)

theorem restart_keeps_credential_flag_witness:
  "apiKeyMissing (mountEffect None initial_session) \<and>
   apiKeyMissing (handleRestartGame (mountEffect None initial_session)) \<and>
   App (handleRestartGame (mountEffect None initial_session)) =
     CriticalErrorView ''CRITICAL ERROR: API Key is not configured. The application cannot function. Please set the API_KEY environment variable.'' \<and>
   callbacks (App (handleRestartGame (mountEffect None initial_session))) = []"
  using restart_keeps_credential_flag [of "mountEffect None initial_session"]
  by (simp add: mountEffect_def initial_session_def)

section \<open>The loading flag guards the choices\<close>

text \<open>
  The guard of \<^verbatim>\<open>handleChoiceSelected\<close> itself (line 59) tests the game state and the credential
  flag only: invoked on a loading session it would issue its request. The protection against a
  choice during loading is the view, which leaves the choices list out (line 143).
\<close>

lemma handler_guard_ignores_loading:
  "storyRequests (fst (handleChoiceSelected
      (constServices (Resolves None) (Resolves None) (Resolves None)) ''Enter''
      (playing_library\<lparr>isLoading := True\<rparr>)))
   = [GetNextScene ''You stand before a library...'' ''Enter'' [''You stand before a library...'']]"
  by (simp add: choice_no_data [where g = library_scene] playing_library_def constServices_def
      library_scene_def storyRequests_def)

lemma no_callback_no_action:
  "callbacks (App s) = [] \<Longrightarrow> run (map User acts) (s, waiting) = (s, waiting)"
  by (induction acts) simp_all

lemma choices_offered:
  "OnChoiceSelected \<in> set (callbacks (App s)) \<Longrightarrow>
     gameStarted s \<and> \<not> isLoading s \<and> (\<exists>g. gameState s = Some g \<and> \<not> gameOver g)"
  by (auto simp: App_def renderMain_def renderScene_def split: if_splits option.splits)

lemma stale_run_reaches:
  "run stale_run (initial_session, []) =
     (playing_library\<lparr>isLoading := True, currentImageUrl := None\<rparr>,
      [PendingImage ChoiceHandler ''endless dark stacks'',
       PendingNext ''You stand before a library...'' ''Enter'' [''You stand before a library...'']])"
  by (simp add: stale_run_def beginStart_def beginChoice_def App_def renderMain_def
      renderScene_def handleRestartGame_def catchFinally_def initial_session_def
      playing_library_def library_scene_def vanish_scene_def Let_def)

text \<open>
  C2, as stated, fails on the code: \<^verbatim>\<open>isLoading\<close> is one flag for all handlers, and the \<^verbatim>\<open>finally\<close>
  block of whichever handler ends resets it. At the end of the run above the flag is set and a
  \<^verbatim>\<open>getNextScene\<close> call is pending. The first game's image then arrives, its handler ends and
  resets the flag (line 97); the choices list is rendered again, and a second choice issues a
  second \<^verbatim>\<open>getNextScene\<close> call while the first has not resolved.
\<close>

theorem stale_finally_counterexample:
  "isLoading (fst (run stale_run (initial_session, []))) \<and>
   snd (run stale_run (initial_session, [])) =
     [PendingImage ChoiceHandler ''endless dark stacks'',
      PendingNext ''You stand before a library...'' ''Enter'' [''You stand before a library...'']] \<and>
   step stale_settle (run stale_run (initial_session, [])) =
     (playing_library\<lparr>currentImageUrl := Some ''stacks.png''\<rparr>,
      [PendingNext ''You stand before a library...'' ''Enter'' [''You stand before a library...'']]) \<and>
   step (User (ChooseOption ''Walk away'')) (step stale_settle (run stale_run (initial_session, []))) =
     (playing_library\<lparr>isLoading := True, currentImageUrl := None\<rparr>,
      [PendingNext ''You stand before a library...'' ''Enter'' [''You stand before a library...''],
       PendingNext ''You stand before a library...'' ''Walk away'' [''You stand before a library...'']])"
  unfolding stale_run_reaches
  by (simp add: stale_settle_def beginChoice_def App_def renderMain_def renderScene_def
      catchFinally_def playing_library_def library_scene_def)

text \<open>
  C2, amended. In every session in which \<^verbatim>\<open>isLoading\<close> is true the rendered view carries no
  \<^verbatim>\<open>onChoiceSelected\<close> callback, so a chooseOption action is not accepted: it issues no request and
  leaves the session and the suspended handlers as they are. When a choice is accepted with no
  other handler suspended, the handler sets the flag and suspends on its \<^verbatim>\<open>getNextScene\<close> call,
  and from then until that call settles no user action of any kind is accepted. (With another
  handler suspended the flag may be reset earlier, as above; the statement says nothing of
  that case.)
\<close>

theorem loading_blocks_choice:
  "(isLoading s \<longrightarrow>
      OnChoiceSelected \<notin> set (callbacks (App s)) \<and>
      userAction env (ChooseOption choice) s = ([], s) \<and>
      step (User (ChooseOption choice)) (s, waiting) = (s, waiting)) \<and>
   (OnChoiceSelected \<in> set (callbacks (App s)) \<and> gameState s = Some g \<and> \<not> apiKeyMissing s \<longrightarrow>
      step (User (ChooseOption choice)) (s, []) =
        (s\<lparr>isLoading := True, error := None, currentImageUrl := None\<rparr>,
         [PendingNext (sceneDescription g) choice (storyLog s)]) \<and>
      run (map User acts) (step (User (ChooseOption choice)) (s, [])) =
        step (User (ChooseOption choice)) (s, []))"
proof -
  have refused: "isLoading s \<longrightarrow>
      OnChoiceSelected \<notin> set (callbacks (App s)) \<and>
      userAction env (ChooseOption choice) s = ([], s) \<and>
      step (User (ChooseOption choice)) (s, waiting) = (s, waiting)"
    by (simp add: userAction_def App_def renderMain_def renderScene_def split: option.splits)
  have accepted: "step (User (ChooseOption choice)) (s, []) =
        (s\<lparr>isLoading := True, error := None, currentImageUrl := None\<rparr>,
         [PendingNext (sceneDescription g) choice (storyLog s)]) \<and>
      run (map User acts) (step (User (ChooseOption choice)) (s, [])) =
        step (User (ChooseOption choice)) (s, [])"
    if offered: "OnChoiceSelected \<in> set (callbacks (App s))"
      and g: "gameState s = Some g" and key: "\<not> apiKeyMissing s"
  proof -
    from choices_offered [OF offered] g
    have started: "gameStarted s" and scene: "\<not> gameOver g" by auto
    have first: "step (User (ChooseOption choice)) (s, []) =
        (s\<lparr>isLoading := True, error := None, currentImageUrl := None\<rparr>,
         [PendingNext (sceneDescription g) choice (storyLog s)])"
      using offered g key by (simp add: beginChoice_def)
    have "callbacks (App (s\<lparr>isLoading := True, error := None, currentImageUrl := None\<rparr>)) = []"
      using started scene g by (simp add: App_def renderMain_def renderScene_def)
    from no_callback_no_action [OF this] first show ?thesis by simp
  qed
  from refused accepted show ?thesis by blast
qed

theorem loading_blocks_choice_witness:
  "isLoading (playing_library\<lparr>isLoading := True\<rparr>) \<and>
   userAction willing_services (ChooseOption ''Enter'') (playing_library\<lparr>isLoading := True\<rparr>)
     = ([], playing_library\<lparr>isLoading := True\<rparr>) \<and>
   step (User (ChooseOption ''Enter'')) (playing_library, []) =
     (playing_library\<lparr>isLoading := True, error := None, currentImageUrl := None\<rparr>,
      [PendingNext ''You stand before a library...'' ''Enter'' [''You stand before a library...'']]) \<and>
   run (map User [ChooseOption ''Walk away'', Restart, StartGame ''haunted library''])
       (step (User (ChooseOption ''Enter'')) (playing_library, []))
     = step (User (ChooseOption ''Enter'')) (playing_library, [])"
proof -
  have loading: "isLoading (playing_library\<lparr>isLoading := True\<rparr>)"
    by simp
  have offered: "OnChoiceSelected \<in> set (callbacks (App playing_library))"
    by (simp add: App_def renderMain_def renderScene_def playing_library_def library_scene_def)
  have current: "gameState playing_library = Some library_scene"
    and key: "\<not> apiKeyMissing playing_library"
    by (simp_all add: concrete_sessions)
  have wording: "sceneDescription library_scene = ''You stand before a library...''"
    by (simp add: library_scene_def)
  from loading
    loading_blocks_choice [of "playing_library\<lparr>isLoading := True\<rparr>" willing_services "''Enter''"
      "[]" library_scene "[]"]
  have refused:
    "userAction willing_services (ChooseOption ''Enter'') (playing_library\<lparr>isLoading := True\<rparr>)
       = ([], playing_library\<lparr>isLoading := True\<rparr>)"
    by blast
  from offered current key
    loading_blocks_choice [of playing_library willing_services "''Enter''" "[]" library_scene
      "[ChooseOption ''Walk away'', Restart, StartGame ''haunted library'']"]
  have accepted:
    "step (User (ChooseOption ''Enter'')) (playing_library, []) =
       (playing_library\<lparr>isLoading := True, error := None, currentImageUrl := None\<rparr>,
        [PendingNext (sceneDescription library_scene) ''Enter'' (storyLog playing_library)])"
    and held:
    "run (map User [ChooseOption ''Walk away'', Restart, StartGame ''haunted library''])
         (step (User (ChooseOption ''Enter'')) (playing_library, []))
       = step (User (ChooseOption ''Enter'')) (playing_library, [])"
    by blast+
  from accepted have accepted':
    "step (User (ChooseOption ''Enter'')) (playing_library, []) =
       (playing_library\<lparr>isLoading := True, error := None, currentImageUrl := None\<rparr>,
        [PendingNext ''You stand before a library...'' ''Enter'' [''You stand before a library...'']])"
    by (simp only: wording concrete_sessions(6))
  show ?thesis
    by (intro conjI) (rule loading refused accepted' held)+
qed

section \<open>Missing credentials\<close>

lemma no_key_invoke:
  "apiKeyMissing s \<Longrightarrow> \<not> gameStarted s \<Longrightarrow>
     fst (invoke env a s) = [] \<and> apiKeyMissing (snd (invoke env a s)) \<and>
     \<not> gameStarted (snd (invoke env a s))"
  by (cases a)
    (simp_all add: handleStartGame_def handleChoiceSelected_def handleRestartGame_def
      split: option.splits)

lemma no_key_invokeAll:
  "apiKeyMissing s \<Longrightarrow> \<not> gameStarted s \<Longrightarrow>
     fst (invokeAll evs s) = [] \<and> apiKeyMissing (snd (invokeAll evs s)) \<and>
     \<not> gameStarted (snd (invokeAll evs s))"
proof (induction evs arbitrary: s)
  case Nil
  then show ?case by simp
next
  case (Cons ev evs)
  obtain env a where ev: "ev = (env, a)" by (cases ev)
  obtain tr s1 where inv: "invoke env a s = (tr, s1)" by (cases "invoke env a s")
  from no_key_invoke [OF Cons.prems, of env a] inv
  have tr: "tr = []" and s1: "apiKeyMissing s1" "\<not> gameStarted s1" by simp_all
  from Cons.IH [OF s1] show ?case
    by (simp add: ev inv tr split: prod.splits)
qed

lemma mount_without_key:
  "apiKey = None \<or> apiKey = Some [] \<Longrightarrow>
     apiKeyMissing (mountEffect apiKey initial_session) \<and>
     \<not> gameStarted (mountEffect apiKey initial_session)"
  by (auto simp: mountEffect_def initial_session_def)

text \<open>
  The same with suspension taken into account: no handler is ever suspended, so no promise can
  settle, and no user action is accepted.
\<close>

lemma no_key_run:
  "apiKeyMissing s \<Longrightarrow> \<not> gameStarted s \<Longrightarrow> run evs (s, []) = (s, [])"
proof (induction evs)
  case Nil
  show ?case by simp
next
  case (Cons ev evs)
  from Cons.prems have "step ev (s, []) = (s, [])"
    by (cases ev) (simp_all add: App_def)
  with Cons show ?case by simp
qed

text \<open>
  C7. When the API key is absent at mount (undefined or empty), then after any sequence of
  handler invocations, under any service behaviour, no request has been issued, the view is
  the critical error screen, that screen carries no callback (neither startGame nor
  chooseOption can be invoked from it), and a user action is not accepted.
\<close>

theorem no_key_no_requests:
  assumes "apiKey = None \<or> apiKey = Some []"
  shows "fst (invokeAll evs (mountEffect apiKey initial_session)) = [] \<and>
         App (snd (invokeAll evs (mountEffect apiKey initial_session))) =
           CriticalErrorView ''CRITICAL ERROR: API Key is not configured. The application cannot function. Please set the API_KEY environment variable.'' \<and>
         callbacks (App (snd (invokeAll evs (mountEffect apiKey initial_session)))) = [] \<and>
         userAction env a (snd (invokeAll evs (mountEffect apiKey initial_session)))
           = ([], snd (invokeAll evs (mountEffect apiKey initial_session)))"
proof -
  from mount_without_key [OF assms]
  have "apiKeyMissing (mountEffect apiKey initial_session)"
    and "\<not> gameStarted (mountEffect apiKey initial_session)" by simp_all
  from no_key_invokeAll [OF this, of evs]
  show ?thesis by (simp add: App_def userAction_def)
qed

theorem no_key_no_requests_witness:
  "fst (invokeAll three_attempts (mountEffect None initial_session)) = [] \<and>
   App (snd (invokeAll three_attempts (mountEffect None initial_session))) =
     CriticalErrorView ''CRITICAL ERROR: API Key is not configured. The application cannot function. Please set the API_KEY environment variable.'' \<and>
   userAction willing_services (StartGame ''haunted library'')
       (snd (invokeAll three_attempts (mountEffect None initial_session)))
     = ([], snd (invokeAll three_attempts (mountEffect None initial_session)))"
  using no_key_no_requests [of None three_attempts willing_services "StartGame ''haunted library''"]
  by simp

section \<open>A failed image request\<close>

text \<open>
  C9. When the scene arrives with a non-empty image prompt and \<^verbatim>\<open>generateImage\<close> rejects, the
  handler sets \<^verbatim>\<open>isImageLoading\<close> before the image request (the session rendered while the request
  is pending has it set), returns with \<^verbatim>\<open>isLoading\<close> reset by the \<^verbatim>\<open>finally\<close> block, and leaves
  \<^verbatim>\<open>isImageLoading\<close> true. When the image request resolves, the flag is reset. This holds for
  \<^verbatim>\<open>handleStartGame\<close> and for \<^verbatim>\<open>handleChoiceSelected\<close>.
\<close>

theorem image_flag_left_set:
  "(\<not> apiKeyMissing s \<and> getInitialScene env theme = Resolves (Some d) \<and> imagePrompt d \<noteq> [] \<and>
      generateImage env (imagePrompt d) = Rejects e \<longrightarrow>
        isImageLoading (fst (last (fst (handleStartGame env theme s)))) \<and>
        snd (last (fst (handleStartGame env theme s))) = GenerateImage (imagePrompt d) \<and>
        isImageLoading (snd (handleStartGame env theme s)) \<and>
        \<not> isLoading (snd (handleStartGame env theme s))) \<and>
   (\<not> apiKeyMissing s \<and> getInitialScene env theme = Resolves (Some d) \<and> imagePrompt d \<noteq> [] \<and>
      generateImage env (imagePrompt d) = Resolves url \<longrightarrow>
        \<not> isImageLoading (snd (handleStartGame env theme s))) \<and>
   (gameState s = Some g \<and> \<not> apiKeyMissing s \<and>
      getNextScene env (sceneDescription g) choice (storyLog s) = Resolves (Some d) \<and>
      imagePrompt d \<noteq> [] \<and> generateImage env (imagePrompt d) = Rejects e \<longrightarrow>
        isImageLoading (fst (last (fst (handleChoiceSelected env choice s)))) \<and>
        snd (last (fst (handleChoiceSelected env choice s))) = GenerateImage (imagePrompt d) \<and>
        isImageLoading (snd (handleChoiceSelected env choice s)) \<and>
        \<not> isLoading (snd (handleChoiceSelected env choice s))) \<and>
   (gameState s = Some g \<and> \<not> apiKeyMissing s \<and>
      getNextScene env (sceneDescription g) choice (storyLog s) = Resolves (Some d) \<and>
      imagePrompt d \<noteq> [] \<and> generateImage env (imagePrompt d) = Resolves url \<longrightarrow>
        \<not> isImageLoading (snd (handleChoiceSelected env choice s)))"
  by (simp add: start_image_rejected start_image_resolved choice_image_rejected
      choice_image_resolved)

theorem image_flag_left_set_witness:
  "isImageLoading (snd (handleStartGame image_down ''haunted library'' initial_session)) \<and>
   \<not> isLoading (snd (handleStartGame image_down ''haunted library'' initial_session)) \<and>
   isImageLoading (snd (handleChoiceSelected image_down ''Enter'' playing_library)) \<and>
   \<not> isLoading (snd (handleChoiceSelected image_down ''Enter'' playing_library))"
  using
    image_flag_left_set [of initial_session image_down "''haunted library''" library_scene
      "ErrorObject ''Image quota exceeded''" None library_scene "''Enter''"]
    image_flag_left_set [of playing_library image_down "''haunted library''" hall_scene
      "ErrorObject ''Image quota exceeded''" None library_scene "''Enter''"]
  by (simp add: image_down_answers concrete_sessions concrete_prompts)

section \<open>A failed image request does not end the game\<close>

text \<open>
  C1. When the scene arrives and the image request that follows is rejected, the handler still
  commits the scene: the game is started, the game state is the new scene, the image reference
  is null, \<^verbatim>\<open>isLoading\<close> is reset, and the thrown value's text is recorded in \<^verbatim>\<open>error\<close>. The view is the
  game-over screen when the scene ends the story, and otherwise the main view with the new
  scene's description, its choices offered, no image, and the recorded text in the banner.
  (The image spinner flag is still set there.) This holds for \<^verbatim>\<open>handleStartGame\<close> and, from a
  started game, for \<^verbatim>\<open>handleChoiceSelected\<close>.
\<close>

theorem image_failure_not_fatal:
  "(\<not> apiKeyMissing s \<and> getInitialScene env theme = Resolves (Some d) \<and> imagePrompt d \<noteq> [] \<and>
      generateImage env (imagePrompt d) = Rejects e \<longrightarrow>
        snd (handleStartGame env theme s) =
          s\<lparr>gameStarted := True, gameState := Some d, storyLog := [sceneDescription d],
            currentImageUrl := None, isLoading := False, isImageLoading := True,
            error := Some (errorText ''An unknown error occurred while starting the game.'' e)\<rparr> \<and>
        App (snd (handleStartGame env theme s)) =
          (if gameOver d then GameOverScreen (gameOverMessage d)
           else MainView
             \<lparr>errorMessage = errorText ''An unknown error occurred while starting the game.'' e,
              topLoading = False,
              scene = Some
                \<lparr>image = \<lparr>imageUrl = None, altText = imagePrompt d, imageSpinner = True\<rparr>,
                 description = sceneDescription d,
                 inlineLoading = False,
                 choicesList = Some (choices d, False)\<rparr>\<rparr>)) \<and>
   (gameState s = Some g \<and> gameStarted s \<and> \<not> apiKeyMissing s \<and>
      getNextScene env (sceneDescription g) choice (storyLog s) = Resolves (Some d) \<and>
      imagePrompt d \<noteq> [] \<and> generateImage env (imagePrompt d) = Rejects e \<longrightarrow>
        snd (handleChoiceSelected env choice s) =
          s\<lparr>gameState := Some d, storyLog := logAfter s d,
            currentImageUrl := None, isLoading := False, isImageLoading := True,
            error := Some (errorText ''An unknown error occurred while processing your choice.'' e)\<rparr> \<and>
        App (snd (handleChoiceSelected env choice s)) =
          (if gameOver d then GameOverScreen (gameOverMessage d)
           else MainView
             \<lparr>errorMessage = errorText ''An unknown error occurred while processing your choice.'' e,
              topLoading = False,
              scene = Some
                \<lparr>image = \<lparr>imageUrl = None, altText = imagePrompt d, imageSpinner = True\<rparr>,
                 description = sceneDescription d,
                 inlineLoading = False,
                 choicesList = Some (choices d, False)\<rparr>\<rparr>))"
  by (simp add: start_image_rejected choice_image_rejected App_def renderMain_def
      renderScene_def bannerText_def)

theorem image_failure_not_fatal_witness:
  "App (snd (handleStartGame image_down ''haunted library'' initial_session)) =
     MainView
       \<lparr>errorMessage = ''Image quota exceeded'',
        topLoading = False,
        scene = Some
          \<lparr>image = \<lparr>imageUrl = None, altText = ''a haunted library exterior'', imageSpinner = True\<rparr>,
           description = ''You stand before a library...'',
           inlineLoading = False,
           choicesList = Some ([''Enter'', ''Walk away''], False)\<rparr>\<rparr> \<and>
   App (snd (handleChoiceSelected image_down ''Enter'' playing_library)) =
     MainView
       \<lparr>errorMessage = ''Image quota exceeded'',
        topLoading = False,
        scene = Some
          \<lparr>image = \<lparr>imageUrl = None, altText = ''a dusty reading hall'', imageSpinner = True\<rparr>,
           description = ''Dust hangs in the reading hall.'',
           inlineLoading = False,
           choicesList = Some ([''Climb the ladder'', ''Leave''], False)\<rparr>\<rparr>"
proof -
  have scenes:
    "sceneDescription library_scene = ''You stand before a library...''"
    "imagePrompt library_scene = ''a haunted library exterior''"
    "choices library_scene = [''Enter'', ''Walk away'']"
    "sceneDescription hall_scene = ''Dust hangs in the reading hall.''"
    "imagePrompt hall_scene = ''a dusty reading hall''"
    "choices hall_scene = [''Climb the ladder'', ''Leave'']"
    by (simp_all add: library_scene_def hall_scene_def)
  from
    image_failure_not_fatal [of initial_session image_down "''haunted library''" library_scene
      "ErrorObject ''Image quota exceeded''" library_scene "''Enter''"]
    image_failure_not_fatal [of playing_library image_down "''haunted library''" hall_scene
      "ErrorObject ''Image quota exceeded''" library_scene "''Enter''"]
  show ?thesis
    using concrete_prompts(4,5)
    by (simp add: image_down_answers concrete_sessions scenes errorText_def App_def
        renderMain_def renderScene_def bannerText_def)
qed

section \<open>A scene that ends the story\<close>



section \<open>The request of a choice\<close>

lemma choice_first_request:
  assumes "gameState s = Some g" and "\<not> apiKeyMissing s"
  shows "\<exists>rest. fst (handleChoiceSelected env choice s) =
           (s\<lparr>isLoading := True, error := None, currentImageUrl := None\<rparr>,
            GetNextScene (sceneDescription g) choice (storyLog s)) # rest \<and>
           storyRequests rest = []"
proof (cases "getNextScene env (sceneDescription g) choice (storyLog s)")
  case (Rejects e)
  with assms show ?thesis by (simp add: choice_rejected storyRequests_def)
next
  case (Resolves r)
  show ?thesis
  proof (cases r)
    case None
    with Resolves assms show ?thesis by (simp add: choice_no_data storyRequests_def)
  next
    case (Some d)
    show ?thesis
    proof (cases "imagePrompt d = []")
      case True
      with Some Resolves assms show ?thesis by (simp add: choice_no_prompt storyRequests_def)
    next
      case False
      with Some Resolves assms show ?thesis
        by (cases "generateImage env (imagePrompt d)")
          (simp_all add: choice_image_rejected choice_image_resolved storyRequests_def)
    qed
  qed
qed

text \<open>
  C8. When \<^verbatim>\<open>handleChoiceSelected\<close> passes its guard (a game state is present and the key is not
  missing), its first request is \<^verbatim>\<open>getNextScene\<close> with the current scene's description, the choice
  and the story log as they stand, and the session rendered while that request is pending has
  the image reference null. It is the only story request of the invocation. What the handler
  does next is what the service answers to exactly that triple: a rejection or an empty answer
  becomes the error text, with the image still null; a scene becomes the game state, is logged
  unless it ends the story, and its image is requested if it has a prompt. The service is
  asked for a scene nowhere else: another service that answers this triple the same way (and
  images the same way) gives the same trace and session. In the playing view (game started,
  scene not ending the story, not loading) the chooseOption action reaches this handler.
\<close>

theorem choice_request_arguments:
  assumes "gameState s = Some g" and "\<not> apiKeyMissing s"
  shows "fst (handleChoiceSelected env choice s) \<noteq> [] \<and>
         hd (fst (handleChoiceSelected env choice s)) =
           (s\<lparr>isLoading := True, error := None, currentImageUrl := None\<rparr>,
            GetNextScene (sceneDescription g) choice (storyLog s)) \<and>
         currentImageUrl (fst (hd (fst (handleChoiceSelected env choice s)))) = None \<and>
         storyRequests (fst (handleChoiceSelected env choice s)) =
           [GetNextScene (sceneDescription g) choice (storyLog s)] \<and>
         (gameStarted s \<and> \<not> gameOver g \<and> \<not> isLoading s \<longrightarrow>
            userAction env (ChooseOption choice) s = handleChoiceSelected env choice s) \<and>
         (getNextScene env (sceneDescription g) choice (storyLog s) = Rejects e \<longrightarrow>
            snd (handleChoiceSelected env choice s) =
              s\<lparr>isLoading := False, currentImageUrl := None,
                error := Some (errorText ''An unknown error occurred while processing your choice.'' e)\<rparr>) \<and>
         (getNextScene env (sceneDescription g) choice (storyLog s) = Resolves None \<longrightarrow>
            snd (handleChoiceSelected env choice s) =
              s\<lparr>isLoading := False, currentImageUrl := None,
                error := Some ''Failed to get next scene: No data received from AI.''\<rparr>) \<and>
         (getNextScene env (sceneDescription g) choice (storyLog s) = Resolves (Some d) \<longrightarrow>
            gameState (snd (handleChoiceSelected env choice s)) = Some d \<and>
            storyLog (snd (handleChoiceSelected env choice s)) = logAfter s d \<and>
            (imagePrompt d = [] \<longrightarrow>
               tl (fst (handleChoiceSelected env choice s)) = [] \<and>
               snd (handleChoiceSelected env choice s) =
                 s\<lparr>isLoading := False, currentImageUrl := None, error := None,
                   gameState := Some d, storyLog := logAfter s d\<rparr>) \<and>
            (imagePrompt d \<noteq> [] \<longrightarrow>
               tl (fst (handleChoiceSelected env choice s)) =
                 [(s\<lparr>isLoading := True, error := None, currentImageUrl := None,
                     gameState := Some d, storyLog := logAfter s d, isImageLoading := True\<rparr>,
                   GenerateImage (imagePrompt d))])) \<and>
         (getNextScene env' (sceneDescription g) choice (storyLog s)
              = getNextScene env (sceneDescription g) choice (storyLog s) \<and>
            generateImage env' = generateImage env \<longrightarrow>
            handleChoiceSelected env' choice s = handleChoiceSelected env choice s)"
proof -
  from choice_first_request [OF assms, of env choice]
  obtain rest where
    tr: "fst (handleChoiceSelected env choice s) =
           (s\<lparr>isLoading := True, error := None, currentImageUrl := None\<rparr>,
            GetNextScene (sceneDescription g) choice (storyLog s)) # rest"
    and rest: "storyRequests rest = []"
    by blast
  have only: "storyRequests (fst (handleChoiceSelected env choice s)) =
          [GetNextScene (sceneDescription g) choice (storyLog s)]"
    using rest by (simp add: tr storyRequests_def)
  have reached: "gameStarted s \<and> \<not> gameOver g \<and> \<not> isLoading s \<longrightarrow>
      userAction env (ChooseOption choice) s = handleChoiceSelected env choice s"
    using assms by (simp add: userAction_def App_def renderMain_def renderScene_def)
  have request: "fst (handleChoiceSelected env choice s) \<noteq> [] \<and>
         hd (fst (handleChoiceSelected env choice s)) =
           (s\<lparr>isLoading := True, error := None, currentImageUrl := None\<rparr>,
            GetNextScene (sceneDescription g) choice (storyLog s)) \<and>
         currentImageUrl (fst (hd (fst (handleChoiceSelected env choice s)))) = None"
    by (simp add: tr)
  have rejected: "getNextScene env (sceneDescription g) choice (storyLog s) = Rejects e \<longrightarrow>
      snd (handleChoiceSelected env choice s) =
        s\<lparr>isLoading := False, currentImageUrl := None,
          error := Some (errorText ''An unknown error occurred while processing your choice.'' e)\<rparr>"
    using assms by (simp add: choice_rejected)
  have no_data: "getNextScene env (sceneDescription g) choice (storyLog s) = Resolves None \<longrightarrow>
      snd (handleChoiceSelected env choice s) =
        s\<lparr>isLoading := False, currentImageUrl := None,
          error := Some ''Failed to get next scene: No data received from AI.''\<rparr>"
    using assms by (simp add: choice_no_data)
  have scene: "getNextScene env (sceneDescription g) choice (storyLog s) = Resolves (Some d) \<longrightarrow>
      gameState (snd (handleChoiceSelected env choice s)) = Some d \<and>
      storyLog (snd (handleChoiceSelected env choice s)) = logAfter s d \<and>
      (imagePrompt d = [] \<longrightarrow>
         tl (fst (handleChoiceSelected env choice s)) = [] \<and>
         snd (handleChoiceSelected env choice s) =
           s\<lparr>isLoading := False, currentImageUrl := None, error := None,
             gameState := Some d, storyLog := logAfter s d\<rparr>) \<and>
      (imagePrompt d \<noteq> [] \<longrightarrow>
         tl (fst (handleChoiceSelected env choice s)) =
           [(s\<lparr>isLoading := True, error := None, currentImageUrl := None,
               gameState := Some d, storyLog := logAfter s d, isImageLoading := True\<rparr>,
             GenerateImage (imagePrompt d))])"
  proof (cases "imagePrompt d = []")
    case True
    with assms show ?thesis by (simp add: choice_no_prompt)
  next
    case False
    with assms show ?thesis
      by (cases "generateImage env (imagePrompt d)")
        (simp_all add: choice_image_rejected choice_image_resolved)
  qed
  have same: "getNextScene env' (sceneDescription g) choice (storyLog s)
        = getNextScene env (sceneDescription g) choice (storyLog s) \<and>
      generateImage env' = generateImage env \<longrightarrow>
      handleChoiceSelected env' choice s = handleChoiceSelected env choice s"
  proof (intro impI, elim conjE)
    assume scenes: "getNextScene env' (sceneDescription g) choice (storyLog s)
        = getNextScene env (sceneDescription g) choice (storyLog s)"
      and images: "generateImage env' = generateImage env"
    have fetch: "fetchImage env' prompt x = fetchImage env prompt x" for prompt x
      by (simp add: fetchImage_def images)
    have "choiceTry env' g (storyLog s) choice x = choiceTry env g (storyLog s) choice x" for x
      by (simp add: choiceTry_def scenes fetch Let_def split: promise.splits option.splits)
    then show "handleChoiceSelected env' choice s = handleChoiceSelected env choice s"
      using assms by (simp add: handleChoiceSelected_def)
  qed
  from request only reached rejected no_data scene same show ?thesis
    by blast
qed

theorem choice_request_arguments_witness:
  "currentImageUrl playing_library = Some ''library.png'' \<and>
   currentImageUrl (fst (hd (fst (handleChoiceSelected fatal_services ''Enter'' playing_library)))) = None \<and>
   storyRequests (fst (handleChoiceSelected fatal_services ''Enter'' playing_library)) =
     [GetNextScene ''You stand before a library...'' ''Enter'' [''You stand before a library...'']] \<and>
   userAction fatal_services (ChooseOption ''Enter'') playing_library
     = handleChoiceSelected fatal_services ''Enter'' playing_library \<and>
   gameState (snd (handleChoiceSelected fatal_services ''Enter'' playing_library)) = Some vanish_scene \<and>
   storyLog (snd (handleChoiceSelected fatal_services ''Enter'' playing_library))
     = [''You stand before a library...''] \<and>
   handleChoiceSelected (fatal_services\<lparr>getInitialScene := (\<lambda>_. Rejects NonErrorValue)\<rparr>)
       ''Enter'' playing_library
     = handleChoiceSelected fatal_services ''Enter'' playing_library"
proof -
  have wording: "sceneDescription library_scene = ''You stand before a library...''"
    by (simp add: library_scene_def)
  have log: "logAfter playing_library vanish_scene = [''You stand before a library...'']"
    by (simp add: logAfter_def concrete_sessions concrete_prompts)
  have answered:
    "getNextScene (fatal_services\<lparr>getInitialScene := (\<lambda>_. Rejects NonErrorValue)\<rparr>)
         (sceneDescription library_scene) ''Enter'' (storyLog playing_library)
       = getNextScene fatal_services (sceneDescription library_scene) ''Enter'' (storyLog playing_library)"
    "generateImage (fatal_services\<lparr>getInitialScene := (\<lambda>_. Rejects NonErrorValue)\<rparr>)
       = generateImage fatal_services"
    by simp_all
  note inst = choice_request_arguments [of playing_library library_scene fatal_services "''Enter''"
      NonErrorValue vanish_scene "fatal_services\<lparr>getInitialScene := (\<lambda>_. Rejects NonErrorValue)\<rparr>",
      OF concrete_sessions(5) concrete_sessions(2)]
  have started: "gameStarted playing_library \<and> \<not> gameOver library_scene \<and> \<not> isLoading playing_library"
    by (simp add: concrete_sessions concrete_prompts)
  have scene:
    "getNextScene fatal_services (sceneDescription library_scene) ''Enter'' (storyLog playing_library)
       = Resolves (Some vanish_scene)"
    by (simp add: fatal_services_answers)
  from inst have first:
    "currentImageUrl (fst (hd (fst (handleChoiceSelected fatal_services ''Enter'' playing_library)))) = None"
    and only: "storyRequests (fst (handleChoiceSelected fatal_services ''Enter'' playing_library)) =
      [GetNextScene (sceneDescription library_scene) ''Enter'' (storyLog playing_library)]"
    by blast+
  from inst started have reached:
    "userAction fatal_services (ChooseOption ''Enter'') playing_library
       = handleChoiceSelected fatal_services ''Enter'' playing_library"
    by blast
  from inst scene have committed:
    "gameState (snd (handleChoiceSelected fatal_services ''Enter'' playing_library)) = Some vanish_scene"
    and logged: "storyLog (snd (handleChoiceSelected fatal_services ''Enter'' playing_library))
      = logAfter playing_library vanish_scene"
    by blast+
  from inst answered have same:
    "handleChoiceSelected (fatal_services\<lparr>getInitialScene := (\<lambda>_. Rejects NonErrorValue)\<rparr>)
         ''Enter'' playing_library
       = handleChoiceSelected fatal_services ''Enter'' playing_library"
    by blast
  from only have only':
    "storyRequests (fst (handleChoiceSelected fatal_services ''Enter'' playing_library)) =
      [GetNextScene ''You stand before a library...'' ''Enter'' [''You stand before a library...'']]"
    by (simp only: wording concrete_sessions(6))
  from logged have logged':
    "storyLog (snd (handleChoiceSelected fatal_services ''Enter'' playing_library))
      = [''You stand before a library...'']"
    by (simp only: log)
  show ?thesis
    by (intro conjI) (rule concrete_sessions(7) first only' reached committed logged' same)+
qed

section \<open>A failed story request\<close>

text \<open>
  C4, as stated, fails on the code. After a rejected \<^verbatim>\<open>getNextScene\<close> the session differs from the
  one before the request by more than the error text: the image reference, cleared at line 63,
  stays null. After a rejected \<^verbatim>\<open>getInitialScene\<close> the error text is recorded, but the view is the
  start screen, which receives the loading flag only.
\<close>

theorem story_failure_counterexample:
  "currentImageUrl playing_library = Some ''library.png'' \<and>
   currentImageUrl (snd (handleChoiceSelected story_down ''Enter'' playing_library)) = None \<and>
   snd (handleChoiceSelected story_down ''Enter'' playing_library)
     \<noteq> playing_library\<lparr>error := Some ''Story service unavailable''\<rparr> \<and>
   error (snd (handleStartGame story_down ''haunted library'' initial_session))
     = Some ''Story service unavailable'' \<and>
   App (snd (handleStartGame story_down ''haunted library'' initial_session)) = GameStartScreen False"
proof -
  have "currentImageUrl (snd (handleChoiceSelected story_down ''Enter'' playing_library)) = None"
    by (simp add: choice_rejected [where g = library_scene] story_down_answers concrete_sessions)
  moreover have "currentImageUrl (playing_library\<lparr>error := Some ''Story service unavailable''\<rparr>)
      = Some ''library.png''"
    by (simp add: concrete_sessions)
  ultimately have "snd (handleChoiceSelected story_down ''Enter'' playing_library)
      \<noteq> playing_library\<lparr>error := Some ''Story service unavailable''\<rparr>"
    by (metis option.distinct(1))
  moreover have "error (snd (handleStartGame story_down ''haunted library'' initial_session))
      = Some ''Story service unavailable''"
    by (simp add: start_rejected story_down_answers concrete_sessions errorText_def)
  moreover have "App (snd (handleStartGame story_down ''haunted library'' initial_session))
      = GameStartScreen False"
    by (simp add: start_rejected story_down_answers concrete_sessions App_def initial_session_def)
  ultimately show ?thesis
    by (simp add: choice_rejected [where g = library_scene] story_down_answers concrete_sessions)
qed

text \<open>
  C4, amended. When the story request of \<^verbatim>\<open>handleStartGame\<close> or \<^verbatim>\<open>handleChoiceSelected\<close> is rejected
  or resolves to no data, that request is the only one the handler issues (no retry, no image
  request), and the session it leaves is the one before the request except that \<^verbatim>\<open>error\<close> holds
  the failure text, \<^verbatim>\<open>isLoading\<close> is false, and the image reference (for \<^verbatim>\<open>handleStartGame\<close> also the
  story log) is cleared; the game state and the game-started flag are untouched. After a failed
  choice in a started game whose scene does not end the story, the main view shows the failure
  text in its banner, the previous scene and its choices.
\<close>

theorem story_failure_outcome:
  "(\<not> apiKeyMissing s \<and> getInitialScene env theme = Rejects e \<longrightarrow>
      map snd (fst (handleStartGame env theme s)) = [GetInitialScene theme] \<and>
      snd (handleStartGame env theme s) =
        s\<lparr>isLoading := False, storyLog := [], currentImageUrl := None,
          error := Some (errorText ''An unknown error occurred while starting the game.'' e)\<rparr>) \<and>
   (\<not> apiKeyMissing s \<and> getInitialScene env theme = Resolves None \<longrightarrow>
      map snd (fst (handleStartGame env theme s)) = [GetInitialScene theme] \<and>
      snd (handleStartGame env theme s) =
        s\<lparr>isLoading := False, storyLog := [], currentImageUrl := None,
          error := Some ''Failed to initialize game: No data received from AI.''\<rparr>) \<and>
   (gameState s = Some g \<and> \<not> apiKeyMissing s \<and>
      getNextScene env (sceneDescription g) choice (storyLog s) = Rejects e \<longrightarrow>
      map snd (fst (handleChoiceSelected env choice s)) =
        [GetNextScene (sceneDescription g) choice (storyLog s)] \<and>
      snd (handleChoiceSelected env choice s) =
        s\<lparr>isLoading := False, currentImageUrl := None,
          error := Some (errorText ''An unknown error occurred while processing your choice.'' e)\<rparr> \<and>
      (gameStarted s \<and> \<not> gameOver g \<longrightarrow>
         App (snd (handleChoiceSelected env choice s)) =
           MainView
             \<lparr>errorMessage = errorText ''An unknown error occurred while processing your choice.'' e,
              topLoading = False,
              scene = Some
                \<lparr>image = \<lparr>imageUrl = None,
                           altText = (if imagePrompt g \<noteq> [] then imagePrompt g else ''Scene image''),
                           imageSpinner = isImageLoading s\<rparr>,
                 description = sceneDescription g,
                 inlineLoading = False,
                 choicesList = Some (choices g, False)\<rparr>\<rparr>)) \<and>
   (gameState s = Some g \<and> \<not> apiKeyMissing s \<and>
      getNextScene env (sceneDescription g) choice (storyLog s) = Resolves None \<longrightarrow>
      map snd (fst (handleChoiceSelected env choice s)) =
        [GetNextScene (sceneDescription g) choice (storyLog s)] \<and>
      snd (handleChoiceSelected env choice s) =
        s\<lparr>isLoading := False, currentImageUrl := None,
          error := Some ''Failed to get next scene: No data received from AI.''\<rparr> \<and>
      (gameStarted s \<and> \<not> gameOver g \<longrightarrow>
         App (snd (handleChoiceSelected env choice s)) =
           MainView
             \<lparr>errorMessage = ''Failed to get next scene: No data received from AI.'',
              topLoading = False,
              scene = Some
                \<lparr>image = \<lparr>imageUrl = None,
                           altText = (if imagePrompt g \<noteq> [] then imagePrompt g else ''Scene image''),
                           imageSpinner = isImageLoading s\<rparr>,
                 description = sceneDescription g,
                 inlineLoading = False,
                 choicesList = Some (choices g, False)\<rparr>\<rparr>))"
  by (simp add: start_rejected start_no_data choice_rejected choice_no_data App_def
      renderMain_def renderScene_def bannerText_def)

theorem story_failure_outcome_witness:
  "map snd (fst (handleStartGame story_down ''haunted library'' initial_session))
     = [GetInitialScene ''haunted library''] \<and>
   snd (handleStartGame story_down ''haunted library'' initial_session)
     = initial_session\<lparr>error := Some ''Story service unavailable''\<rparr> \<and>
   map snd (fst (handleChoiceSelected story_down ''Enter'' playing_library))
     = [GetNextScene ''You stand before a library...'' ''Enter'' [''You stand before a library...'']] \<and>
   snd (handleChoiceSelected story_down ''Enter'' playing_library)
     = playing_library\<lparr>currentImageUrl := None, error := Some ''Story service unavailable''\<rparr>"
proof -
  have wording: "sceneDescription library_scene = ''You stand before a library...''"
    by (simp add: library_scene_def)
  from
    story_failure_outcome [of initial_session story_down "''haunted library''"
      "ErrorObject ''Story service unavailable''" library_scene "''Enter''"]
    story_failure_outcome [of playing_library story_down "''haunted library''"
      "ErrorObject ''Story service unavailable''" library_scene "''Enter''"]
  show ?thesis
    by (simp add: story_down_answers concrete_sessions concrete_prompts wording errorText_def
        initial_session_def playing_library_def)
qed

section \<open>The story log\<close>

text \<open>\<open>sceneReceived\<close> is the scene the handler commits: the game state afterwards says so.\<close>

lemma sceneReceived_committed:
  "gameState (snd (handleChoiceSelected env choice s)) =
     (case sceneReceived env choice s of None \<Rightarrow> gameState s | Some d \<Rightarrow> Some d)"
proof (cases "gameState s = None \<or> apiKeyMissing s")
  case True
  then show ?thesis
    by (auto simp: choice_blocked sceneReceived_def split: option.splits)
next
  case False
  then obtain g where g: "gameState s = Some g" and key: "\<not> apiKeyMissing s" by auto
  show ?thesis
  proof (cases "getNextScene env (sceneDescription g) choice (storyLog s)")
    case (Rejects e)
    with g key show ?thesis by (simp add: choice_rejected sceneReceived_def)
  next
    case (Resolves r)
    show ?thesis
    proof (cases r)
      case None
      with Resolves g key show ?thesis by (simp add: choice_no_data sceneReceived_def)
    next
      case (Some d)
      show ?thesis
      proof (cases "imagePrompt d = []")
        case True
        with Some Resolves g key show ?thesis by (simp add: choice_no_prompt sceneReceived_def)
      next
        case False
        with Some Resolves g key show ?thesis
          by (cases "generateImage env (imagePrompt d)")
            (simp_all add: choice_image_rejected choice_image_resolved sceneReceived_def)
      qed
    qed
  qed
qed

text \<open>One choice: the log grows by the description of a committed scene that does not end the story, and by nothing else.\<close>

lemma choice_log_step:
  "storyLog (snd (handleChoiceSelected env choice s)) =
     storyLog s @
       map sceneDescription
         (nonGameOver (case sceneReceived env choice s of None \<Rightarrow> [] | Some d \<Rightarrow> [d]))"
proof (cases "gameState s = None \<or> apiKeyMissing s")
  case True
  then show ?thesis
    by (auto simp: choice_blocked sceneReceived_def nonGameOver_def split: option.splits)
next
  case False
  then obtain g where g: "gameState s = Some g" and key: "\<not> apiKeyMissing s" by auto
  show ?thesis
  proof (cases "getNextScene env (sceneDescription g) choice (storyLog s)")
    case (Rejects e)
    with g key show ?thesis by (simp add: choice_rejected sceneReceived_def nonGameOver_def)
  next
    case (Resolves r)
    show ?thesis
    proof (cases r)
      case None
      with Resolves g key show ?thesis
        by (simp add: choice_no_data sceneReceived_def nonGameOver_def)
    next
      case (Some d)
      show ?thesis
      proof (cases "imagePrompt d = []")
        case True
        with Some Resolves g key show ?thesis
          by (simp add: choice_no_prompt sceneReceived_def nonGameOver_def logAfter_def)
      next
        case False
        with Some Resolves g key show ?thesis
          by (cases "generateImage env (imagePrompt d)")
            (simp_all add: choice_image_rejected choice_image_resolved sceneReceived_def
              nonGameOver_def logAfter_def)
      qed
    qed
  qed
qed

lemma chooseAll_log:
  "storyLog (chooseAll evs s) =
     storyLog s @ map sceneDescription (nonGameOver (scenesShown evs s))"
proof (induction evs arbitrary: s)
  case Nil
  show ?case by (simp add: nonGameOver_def)
next
  case (Cons ev evs)
  obtain env choice where ev: "ev = (env, choice)" by (cases ev)
  show ?case
    by (simp add: ev Cons.IH choice_log_step nonGameOver_def)
qed

lemma start_log:
  assumes "\<not> apiKeyMissing s" and "getInitialScene env theme = Resolves (Some d)"
  shows "storyLog (snd (handleStartGame env theme s)) = [sceneDescription d]"
proof (cases "imagePrompt d = []")
  case True
  with assms show ?thesis by (simp add: start_no_prompt)
next
  case False
  with assms show ?thesis
    by (cases "generateImage env (imagePrompt d)")
      (simp_all add: start_image_rejected start_image_resolved)
qed

text \<open>
  C5, as stated, fails on the code: \<^verbatim>\<open>handleStartGame\<close> logs the opening scene without looking at
  its \<^verbatim>\<open>gameOver\<close> flag. When the opening scene ends the story, the game-over screen is shown, no
  scene that does not end the story has been shown, and the log has one entry.
\<close>

theorem story_log_length_counterexample:
  "gameOver vanish_scene \<and>
   App (snd (handleStartGame doomed_services ''haunted library'' initial_session))
     = GameOverScreen (Some ''You vanish into the stacks forever.'') \<and>
   storyLog (snd (handleStartGame doomed_services ''haunted library'' initial_session))
     = [''The shelves close behind you.''] \<and>
   nonGameOver [vanish_scene] = [] \<and>
   length (storyLog (snd (handleStartGame doomed_services ''haunted library'' initial_session)))
     \<noteq> length (nonGameOver [vanish_scene])"
proof -
  have final: "snd (handleStartGame doomed_services ''haunted library'' initial_session) =
      initial_session\<lparr>isLoading := False, storyLog := [sceneDescription vanish_scene],
        currentImageUrl := Some ''stacks.png'', gameState := Some vanish_scene,
        gameStarted := True, isImageLoading := False, error := None\<rparr>"
    by (simp add: start_image_resolved doomed_services_answers concrete_sessions concrete_prompts)
  show ?thesis
    unfolding final
    by (simp add: App_def nonGameOver_def initial_session_def vanish_scene_def)
qed

text \<open>
  C5, amended. A successful \<^verbatim>\<open>handleStartGame\<close> leaves the log as exactly the opening scene's
  description, whatever that scene's \<^verbatim>\<open>gameOver\<close> flag. Over any run of choices the log is the log
  before, followed by the descriptions of the committed scenes that do not end the story, in
  play order: nothing is modified or removed. So in a playthrough the log's length is one plus
  the number of such scenes among those the choices brought, and it is the number of scenes
  shown that do not end the story whenever the opening scene is one of them.
\<close>

theorem story_log_append_only:
  "storyLog (chooseAll evs s) = storyLog s @ map sceneDescription (nonGameOver (scenesShown evs s)) \<and>
   take (length (storyLog s)) (storyLog (chooseAll evs s)) = storyLog s \<and>
   (\<not> apiKeyMissing s \<and> getInitialScene env theme = Resolves (Some d) \<longrightarrow>
      storyLog (snd (handleStartGame env theme s)) = [sceneDescription d] \<and>
      storyLog (chooseAll evs (snd (handleStartGame env theme s))) =
        sceneDescription d #
          map sceneDescription (nonGameOver (scenesShown evs (snd (handleStartGame env theme s)))) \<and>
      length (storyLog (chooseAll evs (snd (handleStartGame env theme s)))) =
        1 + length (nonGameOver (scenesShown evs (snd (handleStartGame env theme s)))) \<and>
      (\<not> gameOver d \<longrightarrow>
         storyLog (chooseAll evs (snd (handleStartGame env theme s))) =
           map sceneDescription
             (nonGameOver (d # scenesShown evs (snd (handleStartGame env theme s))))))"
  by (simp add: chooseAll_log start_log nonGameOver_def)

theorem story_log_append_only_witness:
  "scenesShown two_choices (snd (handleStartGame willing_services ''haunted library'' initial_session))
     = [hall_scene, vanish_scene] \<and>
   storyLog (chooseAll two_choices
       (snd (handleStartGame willing_services ''haunted library'' initial_session)))
     = [''You stand before a library...'', ''Dust hangs in the reading hall.'']"
proof -
  have key: "\<not> apiKeyMissing initial_session"
    by (simp add: initial_session_def)
  have first_answer:
    "getInitialScene willing_services ''haunted library'' = Resolves (Some library_scene)"
    by (simp add: willing_services_def constServices_def)
  have shown:
    "scenesShown two_choices
       (snd (handleStartGame willing_services ''haunted library'' initial_session))
     = [hall_scene, vanish_scene]"
    by (simp add: two_choices_def willing_services_def fatal_services_def constServices_def
        handleStartGame_def startGameTry_def fetchImage_def catchFinally_def
        handleChoiceSelected_def choiceTry_def sceneReceived_def initial_session_def
        library_scene_def hall_scene_def vanish_scene_def Let_def)
  from story_log_append_only [of two_choices initial_session willing_services
      "''haunted library''" library_scene]
  show ?thesis
    using key first_answer
    by (simp add: shown nonGameOver_def library_scene_def hall_scene_def vanish_scene_def)
qed

end
